theory Spec2Isabelle
  imports Complex_Main
begin

section \<open>The JSON consumer with weighted sentiment alerts\<close>

text \<open>
  A shallow embedding of \<^verbatim>\<open>consumers/json_consumer_gjrich.py\<close>. The module keeps four
  globals (\<^verbatim>\<open>author_counts\<close>, \<^verbatim>\<open>sentiment_status\<close>, \<^verbatim>\<open>last_alert_range\<close>,
  \<^verbatim>\<open>message_counter\<close>) that \<^verbatim>\<open>process_message\<close> mutates; here they are the fields of a
  record that is passed in and returned. Every exception of the \<^verbatim>\<open>try\<close> body is a value, and
  the calls to the logger are the list of records the call emits.

  A Python float is the real number it denotes, so the comparisons of the band selection
  are the exact ones. The arithmetic of the module on floats (the product with the author's
  weight, the sum with the running status and \<^verbatim>\<open>round(x, 2)\<close>) rounds to a double in
  the interpreter; these three operations are parameters of the model, and nothing is
  assumed about how they round.
\<close>

subsection \<open>Values produced by \<^verbatim>\<open>json.loads\<close>\<close>

text \<open>
  A decoded payload. An object is its list of key/value pairs, read with \<open>map_of\<close>; the
  decoder's constants \<^verbatim>\<open>NaN\<close>, \<^verbatim>\<open>Infinity\<close> and \<^verbatim>\<open>-Infinity\<close> are values of their own.
\<close>

datatype json =
    JNull
  | JBool bool
  | JInt int
  | JFloat real
  | JNaN
  | JPosInf
  | JNegInf
  | JStr string
  | JArr "json list"
  | JObj "(string \<times> json) list"

datatype py_error = JSONDecodeError | KeyError | TypeError | OtherError

text \<open>\<^verbatim>\<open>message_dict.get(key, default)\<close>\<close>

definition dict_get :: "(string \<times> json) list \<Rightarrow> string \<Rightarrow> json \<Rightarrow> json" where
  "dict_get d k dflt = (case map_of d k of Some v \<Rightarrow> v | None \<Rightarrow> dflt)"

text \<open>\<^verbatim>\<open>isinstance(message_dict, dict)\<close>\<close>

fun is_dict :: "json \<Rightarrow> bool" where
  "is_dict (JObj _) = True"
| "is_dict _ = False"

text \<open>
  Only hashable values can be dictionary keys: indexing \<^verbatim>\<open>author_counts\<close> with a list or a
  dictionary raises \<^verbatim>\<open>TypeError\<close>.
\<close>

fun hashable :: "json \<Rightarrow> bool" where
  "hashable (JArr _) = False"
| "hashable (JObj _) = False"
| "hashable _ = True"

text \<open>
  Key equality of a Python dictionary on hashable decoded values: booleans, integers and
  floats compare by numeric value (\<^verbatim>\<open>True == 1 == 1.0\<close>), everything else structurally
  (the decoder's \<^verbatim>\<open>NaN\<close> is one shared object, found again by identity).
\<close>

fun num_of :: "json \<Rightarrow> real option" where
  "num_of (JBool b) = Some (if b then 1 else 0)"
| "num_of (JInt i) = Some (of_int i)"
| "num_of (JFloat r) = Some r"
| "num_of _ = None"

definition key_eq :: "json \<Rightarrow> json \<Rightarrow> bool" where
  "key_eq a b =
     (case num_of a of
        Some x \<Rightarrow> (case num_of b of Some y \<Rightarrow> x = y | None \<Rightarrow> False)
      | None \<Rightarrow> (case num_of b of Some y \<Rightarrow> False | None \<Rightarrow> a = b))"

subsection \<open>Module state and configuration\<close>

record state =
  author_counts :: "(json \<times> int) list"
  sentiment_status :: real
  last_alert_range :: "int option"
  message_counter :: int

definition init_state :: state where
  "init_state =
     \<lparr>author_counts = [], sentiment_status = 0, last_alert_range = None, message_counter = 0\<rparr>"

definition thresholds :: "int list" where
  "thresholds = [-2, -1, 1, 2]"

definition alert_messages :: "(int \<times> string) list" where
  "alert_messages =
    [(-2, ''Hear ye, hear ye! The village is mourning the loss of several souls to a terrible illness; may God grant us strength in this trying time.''),
     (-1, ''Hear ye, hear ye! The Black Knight has been spotted near our borders; be prepared to defend your homes and loved ones.''),
     (1, ''Hear ye, hear ye! A bountiful harvest has been bestowed upon our town; let's gather in the town square for celebration and feasting.''),
     (2, ''Hear ye, hear ye! Lord Xavier is hosting a grand feast at his castle; all are invited to share in the merriment and revelry.'')]"

text \<open>
  The weights are the doubles that the literals 0.4, 0.5, 0.6, 0.7 and 0.8 of the source
  denote, written as the fractions they are (the denominators are \<open>2 ^ 53\<close> and
  \<open>2 ^ 52\<close>).
\<close>

definition author_weights :: "(string \<times> real) list" where
  "author_weights =
    [(''Isolde the Daft'', 3602879701896397 / 9007199254740992),
     (''Eleanor the Fair'', 1 / 2),
     (''Cedric Sunblade'', 5404319552844595 / 9007199254740992),
     (''Tristan Cuthbert'', 3152519739159347 / 4503599627370496),
     (''Alaric the Bold'', 3602879701896397 / 4503599627370496)]"

text \<open>
  The float operations of the interpreter that the module uses: \<open>fmul\<close> is \<^verbatim>\<open>*\<close>, \<open>fadd\<close>
  is \<^verbatim>\<open>+\<close> and \<open>fround2\<close> is \<^verbatim>\<open>round(x, 2)\<close>, each on doubles.
\<close>

record float_ops =
  fmul :: "real \<Rightarrow> real \<Rightarrow> real"
  fadd :: "real \<Rightarrow> real \<Rightarrow> real"
  fround2 :: "real \<Rightarrow> real"

subsection \<open>Log records\<close>

datatype level = DEBUG | INFO | WARNING | ERROR

text \<open>One constructor per logger call of the module, carrying the interpolated value.\<close>

datatype log_msg =
    RawMessage string
  | ProcessedJSON json
  | ReceivedFrom json
  | UpdatedAuthorCounts "(json \<times> int) list"
  | TotalCount int
  | CurrentSentiment real
  | Alert string
  | ExpectedDict json
  | InvalidJSON string
  | ErrorProcessing py_error

type_synonym log_record = "level \<times> log_msg"

text \<open>The alert texts among the records a call emitted (the \<^verbatim>\<open>logger.warning\<close> calls).\<close>

fun alerts :: "log_record list \<Rightarrow> string list" where
  "alerts [] = []"
| "alerts ((WARNING, Alert t) # rs) = t # alerts rs"
| "alerts (_ # rs) = alerts rs"

subsection \<open>The steps of \<^verbatim>\<open>process_message\<close>\<close>

text \<open>
  \<^verbatim>\<open>author_counts[author] += 1\<close> on a \<^verbatim>\<open>defaultdict(int)\<close>: an absent key is created with
  0 and becomes 1 (appended, as dictionaries keep insertion order).
\<close>

fun incr_count :: "json \<Rightarrow> (json \<times> int) list \<Rightarrow> (json \<times> int) list" where
  "incr_count a [] = [(a, 1)]"
| "incr_count a ((k, c) # kcs) =
     (if key_eq k a then (k, c + 1) # kcs else (k, c) # incr_count a kcs)"

text \<open>The count stored for an author, 0 when there is none.\<close>

fun count_of :: "json \<Rightarrow> (json \<times> int) list \<Rightarrow> int" where
  "count_of a [] = 0"
| "count_of a ((k, c) # kcs) = (if key_eq k a then c else count_of a kcs)"

text \<open>\<^verbatim>\<open>sum(author_counts.values())\<close>\<close>

definition total_author_count :: "(json \<times> int) list \<Rightarrow> int" where
  "total_author_count ac = sum_list (map snd ac)"

text \<open>
  Lines 146 to 149: the weight of the author is applied when the author is a key of
  \<^verbatim>\<open>author_weights\<close> (whose keys are strings), otherwise the score is taken as it is.
\<close>

definition apply_author_weight :: "float_ops \<Rightarrow> json \<Rightarrow> real \<Rightarrow> real" where
  "apply_author_weight ops author sentiment_score =
     (case author of
        JStr a \<Rightarrow>
          (case map_of author_weights a of
             Some w \<Rightarrow> fmul ops sentiment_score w
           | None \<Rightarrow> sentiment_score)
      | _ \<Rightarrow> sentiment_score)"

text \<open>
  Lines 168 to 181: the loop over \<^verbatim>\<open>thresholds\<close>. Each iteration tests the four ranges and
  leaves the loop at the first that holds; when none holds the next iteration starts, and
  after the last one \<^verbatim>\<open>current_range\<close> keeps the value it had.
\<close>

fun range_loop :: "int list \<Rightarrow> real \<Rightarrow> int option \<Rightarrow> int option" where
  "range_loop [] s current_range = current_range"
| "range_loop (threshold # ts) s current_range =
     (if -1 \<ge> s \<and> s > -2 then Some (-1)
      else if -2 \<ge> s then Some (-2)
      else if 1 \<le> s \<and> s \<le> 2 then Some 1
      else if 2 < s then Some 2
      else range_loop ts s current_range)"

definition current_range_of :: "real \<Rightarrow> int option" where
  "current_range_of s = range_loop thresholds s None"

text \<open>
  The body of the \<^verbatim>\<open>try\<close> statement (lines 122 to 189). Beside the float operations,
  the two library calls are parameters: \<open>json_loads\<close> stands for \<^verbatim>\<open>json.loads\<close> and
  \<open>polarity\<close> for \<^verbatim>\<open>TextBlob(news_headline).sentiment.polarity\<close>, each returning its
  exception as \<open>Inl\<close>.
  The result is the log records emitted, the state reached, and the exception that ended
  the body, if any; what was assigned before a raise stays assigned.
\<close>

definition try_body ::
  "float_ops \<Rightarrow> (string \<Rightarrow> py_error + json) \<Rightarrow> (json \<Rightarrow> py_error + real) \<Rightarrow> string
     \<Rightarrow> state \<Rightarrow> log_record list \<times> state \<times> py_error option" where
  "try_body ops json_loads polarity message st =
     (let out1 = [(DEBUG, RawMessage message)] in
      case json_loads message of
        Inl e \<Rightarrow> (out1, st, Some e)
      | Inr message_dict \<Rightarrow>
          (let out2 = out1 @ [(INFO, ProcessedJSON message_dict)] in
           case message_dict of
             JObj d \<Rightarrow>
               (let author = dict_get d ''author'' (JStr ''unknown'');
                    out3 = out2 @ [(INFO, ReceivedFrom author)]
                in if \<not> hashable author then (out3, st, Some TypeError)
                   else
                     (let st1 = st\<lparr>author_counts := incr_count author (author_counts st)\<rparr> in
                      case map_of d ''message'' of
                        None \<Rightarrow> (out3, st1, Some KeyError)
                      | Some news_headline \<Rightarrow>
                          (case polarity news_headline of
                             Inl e \<Rightarrow> (out3, st1, Some e)
                           | Inr sentiment_score \<Rightarrow>
                               (let weighted_sentiment =
                                      apply_author_weight ops author sentiment_score;
                                    st2 = st1\<lparr>sentiment_status :=
                                            fadd ops (sentiment_status st1) weighted_sentiment\<rparr>;
                                    st3 = st2\<lparr>sentiment_status :=
                                            fround2 ops (sentiment_status st2)\<rparr>;
                                    st4 = st3\<lparr>message_counter := message_counter st3 + 1\<rparr>;
                                    out4 = out3 @
                                      (if message_counter st4 mod 10 = 0
                                       then [(INFO, UpdatedAuthorCounts (author_counts st4)),
                                             (INFO, TotalCount (total_author_count (author_counts st4)))]
                                       else []);
                                    out5 = out4 @ [(INFO, CurrentSentiment (sentiment_status st4))];
                                    current_range = range_loop thresholds (sentiment_status st4) None
                                in case current_range of
                                     None \<Rightarrow> (out5, st4, None)
                                   | Some r \<Rightarrow>
                                       if last_alert_range st4 \<noteq> Some r
                                       then (case map_of alert_messages r of
                                               None \<Rightarrow> (out5, st4, Some KeyError)
                                             | Some text \<Rightarrow>
                                                 (out5 @ [(WARNING, Alert text)],
                                                  st4\<lparr>last_alert_range := Some r\<rparr>, None))
                                       else (out5, st4, None)))))
           | _ \<Rightarrow> (out2 @ [(ERROR, ExpectedDict message_dict)], st, None)))"

text \<open>
  \<^verbatim>\<open>process_message\<close>: the body under its two handlers. Both handlers log an error and
  return, so the call always returns the records it emitted and the state it reached.
\<close>

definition process_message ::
  "float_ops \<Rightarrow> (string \<Rightarrow> py_error + json) \<Rightarrow> (json \<Rightarrow> py_error + real) \<Rightarrow> string
     \<Rightarrow> state \<Rightarrow> log_record list \<times> state" where
  "process_message ops json_loads polarity message st =
     (case try_body ops json_loads polarity message st of
        (out, st', None) \<Rightarrow> (out, st')
      | (out, st', Some JSONDecodeError) \<Rightarrow> (out @ [(ERROR, InvalidJSON message)], st')
      | (out, st', Some e) \<Rightarrow> (out @ [(ERROR, ErrorProcessing e)], st'))"

text \<open>
  The polling loop of \<^verbatim>\<open>main\<close> (lines 223 to 226) on a finite run of records: each record
  is processed in the state the previous one left.
\<close>

fun consume ::
  "float_ops \<Rightarrow> (string \<Rightarrow> py_error + json) \<Rightarrow> (json \<Rightarrow> py_error + real)
     \<Rightarrow> string list \<Rightarrow> state \<Rightarrow> log_record list \<times> state" where
  "consume ops json_loads polarity [] st = ([], st)"
| "consume ops json_loads polarity (m # ms) st =
     (let (out1, st1) = process_message ops json_loads polarity m st;
          (out2, st2) = consume ops json_loads polarity ms st1
      in (out1 @ out2, st2))"

text \<open>The states after each record of a run, in order.\<close>

fun trace ::
  "float_ops \<Rightarrow> (string \<Rightarrow> py_error + json) \<Rightarrow> (json \<Rightarrow> py_error + real)
     \<Rightarrow> string list \<Rightarrow> state \<Rightarrow> state list" where
  "trace ops json_loads polarity [] st = []"
| "trace ops json_loads polarity (m # ms) st =
     (let st1 = snd (process_message ops json_loads polarity m st)
      in st1 # trace ops json_loads polarity ms st1)"

subsection \<open>The vocabulary of the specification\<close>

datatype band = VeryNegative | Negative | Positive | VeryPositive

text \<open>The key of \<^verbatim>\<open>alert_messages\<close> that stands for each band.\<close>

fun band_key :: "band \<Rightarrow> int" where
  "band_key VeryNegative = -2"
| "band_key Negative = -1"
| "band_key Positive = 1"
| "band_key VeryPositive = 2"

text \<open>
  The Band Classifier as the specification gives it: an ordered decision list, the first
  match wins, no band (neutral) otherwise.
\<close>

definition classify :: "real \<Rightarrow> band option" where
  "classify x =
     (if x \<le> -2 then Some VeryNegative
      else if -2 < x \<and> x \<le> -1 then Some Negative
      else if 1 \<le> x \<and> x \<le> 2 then Some Positive
      else if x > 2 then Some VeryPositive
      else None)"

text \<open>
  The author and the score of a record that reaches the update of the sentiment status:
  it decodes to an object, its author is hashable, it has a \<^verbatim>\<open>message\<close> and the scorer
  returns.
\<close>

definition scored ::
  "(string \<Rightarrow> py_error + json) \<Rightarrow> (json \<Rightarrow> py_error + real) \<Rightarrow> string \<Rightarrow> (json \<times> real) option" where
  "scored json_loads polarity message =
     (case json_loads message of
        Inr (JObj d) \<Rightarrow>
          (let author = dict_get d ''author'' (JStr ''unknown'')
           in if hashable author
              then (case map_of d ''message'' of
                      Some news_headline \<Rightarrow>
                        (case polarity news_headline of
                           Inr sentiment_score \<Rightarrow> Some (author, sentiment_score)
                         | Inl e \<Rightarrow> None)
                    | None \<Rightarrow> None)
              else None)
      | _ \<Rightarrow> None)"

text \<open>The author of a record that reaches the increment of \<^verbatim>\<open>author_counts\<close>.\<close>

definition counted :: "(string \<Rightarrow> py_error + json) \<Rightarrow> string \<Rightarrow> json option" where
  "counted json_loads message =
     (case json_loads message of
        Inr (JObj d) \<Rightarrow>
          (let author = dict_get d ''author'' (JStr ''unknown'')
           in if hashable author then Some author else None)
      | _ \<Rightarrow> None)"

text \<open>
  A successfully decoded message in the words of the specification: the payload parses as
  a structured object and contains the required text field.
\<close>

definition decoded :: "(string \<Rightarrow> py_error + json) \<Rightarrow> string \<Rightarrow> bool" where
  "decoded json_loads message =
     (case json_loads message of
        Inr (JObj d) \<Rightarrow> map_of d ''message'' \<noteq> None
      | _ \<Rightarrow> False)"

text \<open>
  The Weight Table lookup in the words of the specification: the configured multiplier
  when the author is a key, and 1.0 otherwise.
\<close>

definition weight_lookup :: "string \<Rightarrow> real" where
  "weight_lookup author =
     (case map_of author_weights author of Some w \<Rightarrow> w | None \<Rightarrow> 1.0)"

subsection \<open>Sample records\<close>

text \<open>
  The examples below run \<^verbatim>\<open>process_message\<close> on a few concrete records. \<open>sample_loads\<close>
  gives what \<^verbatim>\<open>json.loads\<close> returns on each of them (the first is the example of the
  module's docstring), and \<open>sample_polarity\<close> is a scorer for their texts that, like
  TextBlob, refuses a text that is not a string.
\<close>

definition sample_loads :: "string \<Rightarrow> py_error + json" where
  \<open>sample_loads s =
     (if s = ''{"message": "I love Python!", "author": "Eve"}''
        then Inr (JObj [(''message'', JStr ''I love Python!''), (''author'', JStr ''Eve'')])
      else if s = ''{"message": "awesome"}'' then Inr (JObj [(''message'', JStr ''awesome'')])
      else if s = ''{"message": "worst"}'' then Inr (JObj [(''message'', JStr ''worst'')])
      else if s = ''{"message": 5}'' then Inr (JObj [(''message'', JInt 5)])
      else if s = ''{"author": "Eve"}'' then Inr (JObj [(''author'', JStr ''Eve'')])
      else if s = ''[1, 2]'' then Inr (JArr [JInt 1, JInt 2])
      else Inl JSONDecodeError)\<close>

definition sample_polarity :: "json \<Rightarrow> py_error + real" where
  "sample_polarity text =
     (case text of
        JStr s \<Rightarrow>
          (if s = ''I love Python!'' then Inr 0.625
           else if s = ''awesome'' then Inr 1
           else if s = ''worst'' then Inr (-1)
           else Inr 0)
      | _ \<Rightarrow> Inl TypeError)"

text \<open>
  Arithmetic without rounding error, for the examples: rounding to two decimals sends a
  real to the nearest multiple of 0.01, a tie to the even one. The examples run it where
  the interpreter computes the same values, their products, sums and rounded values being
  integers or negative powers of two.
\<close>

definition round_half_even :: "real \<Rightarrow> int" where
  "round_half_even x =
     (let f = \<lfloor>x\<rfloor>; d = x - of_int f
      in if d < 1 / 2 then f
         else if 1 / 2 < d then f + 1
         else if even f then f else f + 1)"

definition exact_ops :: float_ops where
  "exact_ops =
     \<lparr>fmul = (\<lambda>x y. x * y), fadd = (\<lambda>x y. x + y),
      fround2 = (\<lambda>x. of_int (round_half_even (x * 100)) / 100)\<rparr>"

section \<open>Band selection\<close>

lemma range_loop_cons:
  "range_loop (t # ts) s None =
     (if s \<le> -2 then Some (-2)
      else if s \<le> -1 then Some (-1)
      else if 1 \<le> s \<and> s \<le> 2 then Some 1
      else if 2 < s then Some 2
      else None)"
  by (induction ts) auto

lemma current_range_of_eq:
  "current_range_of s =
     (if s \<le> -2 then Some (-2)
      else if s \<le> -1 then Some (-1)
      else if 1 \<le> s \<and> s \<le> 2 then Some 1
      else if 2 < s then Some 2
      else None)"
  unfolding current_range_of_def thresholds_def by (rule range_loop_cons)

text \<open>
  Claim C3. The band selection is a total function of the real status, and its five
  outcomes partition the reals: key -2 (VeryNegative) exactly when \<open>x \<le> -2.0\<close>, key -1
  (Negative) exactly when \<open>-2.0 < x \<le> -1.0\<close>, key 1 (Positive) exactly when
  \<open>1.0 \<le> x \<le> 2.0\<close>, key 2 (VeryPositive) exactly when \<open>x > 2.0\<close>, and no range
  (neutral) exactly when \<open>-1.0 < x < 1.0\<close>; exactly one of the five applies.
\<close>

theorem band_selection_partition:
  "(current_range_of x = Some (band_key VeryNegative) \<longleftrightarrow> x \<le> -2.0)
   \<and> (current_range_of x = Some (band_key Negative) \<longleftrightarrow> -2.0 < x \<and> x \<le> -1.0)
   \<and> (current_range_of x = Some (band_key Positive) \<longleftrightarrow> 1.0 \<le> x \<and> x \<le> 2.0)
   \<and> (current_range_of x = Some (band_key VeryPositive) \<longleftrightarrow> x > 2.0)
   \<and> (current_range_of x = None \<longleftrightarrow> -1.0 < x \<and> x < 1.0)
   \<and> (\<exists>!r. r \<in> {None, Some (band_key VeryNegative), Some (band_key Negative),
                  Some (band_key Positive), Some (band_key VeryPositive)}
          \<and> current_range_of x = r)"
  by (auto simp: current_range_of_eq)

text \<open>
  Claim C9. The loop of the source over \<^verbatim>\<open>thresholds\<close> computes the band of the
  specification's single-pass decision list, for every real status; and what the loop
  returns is already decided by its first iteration.
\<close>

theorem range_loop_refines_classify:
  "range_loop thresholds x None = map_option band_key (classify x)
   \<and> (\<forall>threshold ts. range_loop (threshold # ts) x None = range_loop [threshold] x None)"
proof -
  have "range_loop thresholds x None = map_option band_key (classify x)"
    unfolding thresholds_def range_loop_cons classify_def by auto
  moreover have "range_loop (threshold # ts) x None = range_loop [threshold] x None"
    for threshold ts
    unfolding range_loop_cons ..
  ultimately show ?thesis by blast
qed

section \<open>Author weights\<close>

text \<open>
  Claim C8. Weighting never fails. For an author that is a key of the weight table the
  weighted score is the float product of the score with the multiplier that the lookup of
  the specification returns, which is the weight configured for that author; for every
  other author, the default \<^verbatim>\<open>"unknown"\<close> included, the lookup returns 1.0 and the
  weighted score is the score itself.
\<close>

theorem author_weight_total:
  "apply_author_weight ops author score =
     (case author of
        JStr a \<Rightarrow>
          if a \<in> {''Isolde the Daft'', ''Eleanor the Fair'', ''Cedric Sunblade'',
                   ''Tristan Cuthbert'', ''Alaric the Bold''}
          then fmul ops score (weight_lookup a) else score
      | _ \<Rightarrow> score)
   \<and> weight_lookup a =
       (if a = ''Isolde the Daft'' then 3602879701896397 / 9007199254740992
        else if a = ''Eleanor the Fair'' then 1 / 2
        else if a = ''Cedric Sunblade'' then 5404319552844595 / 9007199254740992
        else if a = ''Tristan Cuthbert'' then 3152519739159347 / 4503599627370496
        else if a = ''Alaric the Bold'' then 3602879701896397 / 4503599627370496
        else 1.0)
   \<and> apply_author_weight ops (JStr ''unknown'') score = score
   \<and> weight_lookup ''unknown'' = 1.0"
  by (auto simp: apply_author_weight_def weight_lookup_def author_weights_def
      split: json.splits option.splits)

text \<open>
  The fractions of the table are the doubles nearest to the decimal literals of the
  source: each is a multiple of the spacing of the doubles around it and lies within half
  that spacing of the literal.
\<close>

lemma author_weights_nearest_doubles:
  "map (\<lambda>(a, w). w * 2 ^ 54 \<in> \<int>) author_weights = [True, True, True, True, True]"
  "\<bar>weight_lookup ''Isolde the Daft'' - 0.4\<bar> \<le> 1 / 2 ^ 55"
  "weight_lookup ''Eleanor the Fair'' = 0.5"
  "\<bar>weight_lookup ''Cedric Sunblade'' - 0.6\<bar> \<le> 1 / 2 ^ 54"
  "\<bar>weight_lookup ''Tristan Cuthbert'' - 0.7\<bar> \<le> 1 / 2 ^ 54"
  "\<bar>weight_lookup ''Alaric the Bold'' - 0.8\<bar> \<le> 1 / 2 ^ 54"
  by (simp_all add: weight_lookup_def author_weights_def)

section \<open>One call of \<^verbatim>\<open>process_message\<close>\<close>

text \<open>What the body does on each of its paths.\<close>

lemma alerts_append: "alerts (xs @ ys) = alerts xs @ alerts ys"
  by (induction xs rule: alerts.induct) auto

lemma try_body_loads_error:
  "json_loads message = Inl e \<Longrightarrow>
   try_body ops json_loads polarity message st = ([(DEBUG, RawMessage message)], st, Some e)"
  by (simp add: try_body_def)

lemma try_body_not_object:
  "json_loads message = Inr j \<Longrightarrow> \<not> is_dict j \<Longrightarrow>
   try_body ops json_loads polarity message st =
     ([(DEBUG, RawMessage message), (INFO, ProcessedJSON j), (ERROR, ExpectedDict j)], st, None)"
  by (cases j) (simp_all add: try_body_def)

lemma try_body_unhashable:
  "json_loads message = Inr (JObj d) \<Longrightarrow> \<not> hashable (dict_get d ''author'' (JStr ''unknown'')) \<Longrightarrow>
   try_body ops json_loads polarity message st =
     ([(DEBUG, RawMessage message), (INFO, ProcessedJSON (JObj d)),
       (INFO, ReceivedFrom (dict_get d ''author'' (JStr ''unknown'')))], st, Some TypeError)"
  by (simp add: try_body_def Let_def)

lemma try_body_no_message:
  "json_loads message = Inr (JObj d) \<Longrightarrow> hashable (dict_get d ''author'' (JStr ''unknown'')) \<Longrightarrow>
   map_of d ''message'' = None \<Longrightarrow>
   try_body ops json_loads polarity message st =
     ([(DEBUG, RawMessage message), (INFO, ProcessedJSON (JObj d)),
       (INFO, ReceivedFrom (dict_get d ''author'' (JStr ''unknown'')))],
      st\<lparr>author_counts := incr_count (dict_get d ''author'' (JStr ''unknown'')) (author_counts st)\<rparr>,
      Some KeyError)"
  by (simp add: try_body_def Let_def)

lemma try_body_scorer_error:
  "json_loads message = Inr (JObj d) \<Longrightarrow> hashable (dict_get d ''author'' (JStr ''unknown'')) \<Longrightarrow>
   map_of d ''message'' = Some h \<Longrightarrow> polarity h = Inl e \<Longrightarrow>
   try_body ops json_loads polarity message st =
     ([(DEBUG, RawMessage message), (INFO, ProcessedJSON (JObj d)),
       (INFO, ReceivedFrom (dict_get d ''author'' (JStr ''unknown'')))],
      st\<lparr>author_counts := incr_count (dict_get d ''author'' (JStr ''unknown'')) (author_counts st)\<rparr>,
      Some e)"
  by (simp add: try_body_def Let_def)

lemma process_message_alerts:
  "alerts (fst (process_message ops json_loads polarity message st)) =
   alerts (fst (try_body ops json_loads polarity message st))"
proof -
  obtain out st' r where t: "try_body ops json_loads polarity message st = (out, st', r)"
    by (cases "try_body ops json_loads polarity message st") auto
  show ?thesis
  proof (cases r)
    case None
    with t show ?thesis by (simp add: process_message_def)
  next
    case (Some e)
    with t show ?thesis by (cases e) (simp_all add: process_message_def alerts_append)
  qed
qed

lemma process_message_state:
  "snd (process_message ops json_loads polarity message st) =
   fst (snd (try_body ops json_loads polarity message st))"
proof -
  obtain out st' r where t: "try_body ops json_loads polarity message st = (out, st', r)"
    by (cases "try_body ops json_loads polarity message st") auto
  show ?thesis
  proof (cases r)
    case None
    with t show ?thesis by (simp add: process_message_def)
  next
    case (Some e)
    with t show ?thesis by (cases e) (simp_all add: process_message_def)
  qed
qed

lemma try_body_unscored:
  assumes "scored json_loads polarity message = None"
  shows "fst (snd (try_body ops json_loads polarity message st)) =
      (case counted json_loads message of
         Some a \<Rightarrow> st\<lparr>author_counts := incr_count a (author_counts st)\<rparr>
       | None \<Rightarrow> st)
    \<and> alerts (fst (try_body ops json_loads polarity message st)) = []"
proof (cases "json_loads message")
  case (Inl e)
  then show ?thesis
    by (simp add: try_body_loads_error counted_def)
next
  case (Inr j)
  show ?thesis
  proof (cases "is_dict j")
    case nd: False
    have "counted json_loads message = None"
      using Inr nd by (cases j) (simp_all add: counted_def)
    then show ?thesis
      using Inr nd by (simp add: try_body_not_object)
  next
    case True
    then obtain d where j: "json_loads message = Inr (JObj d)" using Inr by (cases j) auto
    let ?a = "dict_get d ''author'' (JStr ''unknown'')"
    show ?thesis
    proof (cases "hashable ?a")
      case False
      then show ?thesis using j
        by (simp add: try_body_unhashable counted_def)
    next
      case h: True
      then have c: "counted json_loads message = Some ?a"
        using j by (simp add: counted_def)
      show ?thesis
      proof (cases "map_of d ''message''")
        case None
        then show ?thesis using j h c by (simp add: try_body_no_message)
      next
        case (Some t)
        then obtain e where "polarity t = Inl e"
          using assms j h by (cases "polarity t") (simp_all add: scored_def)
        then show ?thesis using j h c Some by (simp add: try_body_scorer_error)
      qed
    qed
  qed
qed

lemma alert_messages_total:
  "current_range_of s = Some r \<Longrightarrow> \<exists>t. map_of alert_messages r = Some t"
  by (auto simp: current_range_of_eq alert_messages_def split: if_splits)

lemma try_body_scored:
  assumes "scored json_loads polarity message = Some (a, x)"
  shows "\<exists>out. try_body ops json_loads polarity message st =
     (out,
      st\<lparr>author_counts := incr_count a (author_counts st),
         sentiment_status := fround2 ops (fadd ops (sentiment_status st) (apply_author_weight ops a x)),
         message_counter := message_counter st + 1,
         last_alert_range :=
           (case current_range_of (fround2 ops (fadd ops (sentiment_status st) (apply_author_weight ops a x))) of
              None \<Rightarrow> last_alert_range st | Some r \<Rightarrow> Some r)\<rparr>,
      None)
    \<and> alerts out =
       (case current_range_of (fround2 ops (fadd ops (sentiment_status st) (apply_author_weight ops a x))) of
          None \<Rightarrow> []
        | Some r \<Rightarrow> if last_alert_range st = Some r then [] else [the (map_of alert_messages r)])"
proof -
  obtain d h where ld: "json_loads message = Inr (JObj d)"
    and ha: "hashable (dict_get d ''author'' (JStr ''unknown''))"
    and a: "a = dict_get d ''author'' (JStr ''unknown'')"
    and h: "map_of d ''message'' = Some h" and p: "polarity h = Inr x"
    using assms
    by (auto simp: scored_def Let_def split: sum.splits json.splits option.splits if_splits)
  let ?c = "fround2 ops (fadd ops (sentiment_status st) (apply_author_weight ops a x))"
  show ?thesis
  proof (cases "current_range_of ?c")
    case None
    then show ?thesis using ld ha h p a
      by (simp add: try_body_def Let_def current_range_of_def alerts_append)
  next
    case (Some r)
    then obtain t where t: "map_of alert_messages r = Some t"
      using alert_messages_total by blast
    show ?thesis using Some t ld ha h p a
      by (simp add: try_body_def Let_def current_range_of_def alerts_append)
  qed
qed

lemma process_message_scored:
  assumes "scored json_loads polarity message = Some (a, x)"
  shows "snd (process_message ops json_loads polarity message st) =
      st\<lparr>author_counts := incr_count a (author_counts st),
         sentiment_status := fround2 ops (fadd ops (sentiment_status st) (apply_author_weight ops a x)),
         message_counter := message_counter st + 1,
         last_alert_range :=
           (case current_range_of (fround2 ops (fadd ops (sentiment_status st) (apply_author_weight ops a x))) of
              None \<Rightarrow> last_alert_range st | Some r \<Rightarrow> Some r)\<rparr>
    \<and> alerts (fst (process_message ops json_loads polarity message st)) =
       (case current_range_of (fround2 ops (fadd ops (sentiment_status st) (apply_author_weight ops a x))) of
          None \<Rightarrow> []
        | Some r \<Rightarrow> if last_alert_range st = Some r then [] else [the (map_of alert_messages r)])"
  using try_body_scored [OF assms, where st = st and ops = ops]
  by (auto simp: process_message_state process_message_alerts)

lemma process_message_unscored:
  assumes "scored json_loads polarity message = None"
  shows "snd (process_message ops json_loads polarity message st) =
      (case counted json_loads message of
         Some a \<Rightarrow> st\<lparr>author_counts := incr_count a (author_counts st)\<rparr>
       | None \<Rightarrow> st)
    \<and> alerts (fst (process_message ops json_loads polarity message st)) = []"
  using try_body_unscored [OF assms, where st = st and ops = ops]
  by (simp add: process_message_state process_message_alerts)

lemma try_body_raises_unscored:
  assumes "snd (snd (try_body ops json_loads polarity message st)) = Some e"
  shows "scored json_loads polarity message = None"
proof (cases "scored json_loads polarity message")
  case None then show ?thesis .
next
  case (Some p)
  obtain a x where "p = (a, x)" by (cases p)
  with Some try_body_scored [of json_loads polarity message a x ops st] assms
  show ?thesis by auto
qed

section \<open>Alerts\<close>

text \<open>
  Claim C2. On every call that reaches the update of the sentiment status, an alert is
  emitted if and only if the range selected for the status the call has stored (the new
  cumulative value, whatever the float operations made it) is not \<^verbatim>\<open>None\<close> (neutral)
  and differs from \<^verbatim>\<open>last_alert_range\<close> as it was before the call; and \<^verbatim>\<open>last_alert_range\<close>
  becomes that range exactly when an alert is emitted, and keeps its value otherwise, also
  when no range is selected.
\<close>

theorem alert_iff_new_band:
  assumes "scored json_loads polarity message = Some (author, score)"
  shows "(alerts (fst (process_message ops json_loads polarity message st)) \<noteq> [] \<longleftrightarrow>
         current_range_of
           (sentiment_status (snd (process_message ops json_loads polarity message st))) \<noteq> None
         \<and> current_range_of
             (sentiment_status (snd (process_message ops json_loads polarity message st)))
             \<noteq> last_alert_range st)
    \<and> last_alert_range (snd (process_message ops json_loads polarity message st)) =
         (if alerts (fst (process_message ops json_loads polarity message st)) \<noteq> []
          then current_range_of
                 (sentiment_status (snd (process_message ops json_loads polarity message st)))
          else last_alert_range st)"
proof -
  let ?c = "fround2 ops (fadd ops (sentiment_status st) (apply_author_weight ops author score))"
  note pm = process_message_scored [OF assms, where st = st and ops = ops]
  have s: "sentiment_status (snd (process_message ops json_loads polarity message st)) = ?c"
    using pm by simp
  show ?thesis
  proof (cases "current_range_of ?c")
    case None
    then show ?thesis using pm by (simp add: s)
  next
    case (Some r)
    then show ?thesis using pm by (simp add: s)
  qed
qed

text \<open>
  The first record of a stream, scored 1.0: the status becomes 1.0 and the alert of
  range 1 fires.
\<close>

theorem alert_iff_new_band_witness:
  \<open>scored sample_loads sample_polarity ''{"message": "awesome"}'' = Some (JStr ''unknown'', 1)
   \<and> sentiment_status
        (snd (process_message exact_ops sample_loads sample_polarity ''{"message": "awesome"}'' init_state)) = 1
   \<and> alerts (fst (process_message exact_ops sample_loads sample_polarity ''{"message": "awesome"}'' init_state))
        \<noteq> []
   \<and> last_alert_range
        (snd (process_message exact_ops sample_loads sample_polarity ''{"message": "awesome"}'' init_state))
        = Some 1\<close>
proof -
  have h: \<open>scored sample_loads sample_polarity ''{"message": "awesome"}'' = Some (JStr ''unknown'', 1)\<close>
    by (simp add: scored_def sample_loads_def sample_polarity_def dict_get_def)
  have c: "fround2 exact_ops (fadd exact_ops (sentiment_status init_state)
             (apply_author_weight exact_ops (JStr ''unknown'') 1)) = 1"
    by (simp add: exact_ops_def round_half_even_def init_state_def apply_author_weight_def
        author_weights_def)
  have r: "current_range_of 1 = Some 1"
    by (simp add: current_range_of_eq)
  have l: "last_alert_range init_state = None"
    by (simp add: init_state_def)
  have s: \<open>sentiment_status
        (snd (process_message exact_ops sample_loads sample_polarity ''{"message": "awesome"}''
                init_state)) = 1\<close>
    using process_message_scored [OF h, where st = init_state and ops = exact_ops]
    by (simp add: c)
  show ?thesis
    using alert_iff_new_band [OF h, where st = init_state and ops = exact_ops] h
    unfolding s l by (simp add: r)
qed

section \<open>Records that are dropped\<close>

text \<open>
  Claim C7. A record that \<^verbatim>\<open>json.loads\<close> rejects, and a record that decodes to a value
  that is not a dictionary, leave the whole state as it was (status, last alert range,
  author counts and message counter); the call logs one error and returns.
\<close>

theorem malformed_record_dropped:
  "(json_loads message = Inl e \<longrightarrow>
      process_message ops json_loads polarity message st =
        ([(DEBUG, RawMessage message),
          (ERROR, if e = JSONDecodeError then InvalidJSON message else ErrorProcessing e)], st))
   \<and> (json_loads message = Inr j \<and> \<not> is_dict j \<longrightarrow>
      process_message ops json_loads polarity message st =
        ([(DEBUG, RawMessage message), (INFO, ProcessedJSON j), (ERROR, ExpectedDict j)], st))"
proof (intro conjI impI)
  assume "json_loads message = Inl e"
  then show "process_message ops json_loads polarity message st =
        ([(DEBUG, RawMessage message),
          (ERROR, if e = JSONDecodeError then InvalidJSON message else ErrorProcessing e)], st)"
    by (cases e) (simp_all add: process_message_def try_body_loads_error)
next
  assume "json_loads message = Inr j \<and> \<not> is_dict j"
  then show "process_message ops json_loads polarity message st =
        ([(DEBUG, RawMessage message), (INFO, ProcessedJSON j), (ERROR, ExpectedDict j)], st)"
    by (simp add: process_message_def try_body_not_object)
qed

text \<open>A record that is not JSON, and one that decodes to a list.\<close>

theorem malformed_record_dropped_witness:
  "sample_loads ''not json'' = Inl JSONDecodeError
   \<and> process_message exact_ops sample_loads sample_polarity ''not json'' init_state =
        ([(DEBUG, RawMessage ''not json''), (ERROR, InvalidJSON ''not json'')], init_state)
   \<and> sample_loads ''[1, 2]'' = Inr (JArr [JInt 1, JInt 2])
   \<and> \<not> is_dict (JArr [JInt 1, JInt 2])
   \<and> process_message exact_ops sample_loads sample_polarity ''[1, 2]'' init_state =
        ([(DEBUG, RawMessage ''[1, 2]''), (INFO, ProcessedJSON (JArr [JInt 1, JInt 2])),
          (ERROR, ExpectedDict (JArr [JInt 1, JInt 2]))], init_state)"
proof -
  have a: "sample_loads ''not json'' = Inl JSONDecodeError"
    by (simp add: sample_loads_def)
  have b: "sample_loads ''[1, 2]'' = Inr (JArr [JInt 1, JInt 2])"
    by (simp add: sample_loads_def)
  show ?thesis
    using malformed_record_dropped
            [where json_loads = sample_loads and message = "''not json''"
               and e = JSONDecodeError and polarity = sample_polarity and st = init_state
               and ops = exact_ops]
          malformed_record_dropped
            [where json_loads = sample_loads and message = "''[1, 2]''"
               and j = "JArr [JInt 1, JInt 2]" and polarity = sample_polarity
               and st = init_state and ops = exact_ops]
          a b
    by simp
qed

text \<open>
  Claim C1, as stated, fails: a record that decodes to an object without \<^verbatim>\<open>message\<close> has
  its author counted before the missing key is looked up.
\<close>

theorem missing_message_counterexample:
  \<open>sample_loads ''{"author": "Eve"}'' = Inr (JObj [(''author'', JStr ''Eve'')])
   \<and> map_of [(''author'', JStr ''Eve'')] ''message'' = None
   \<and> author_counts init_state = []
   \<and> author_counts
        (snd (process_message exact_ops sample_loads sample_polarity ''{"author": "Eve"}'' init_state))
        = [(JStr ''Eve'', 1)]\<close>
proof -
  have l: \<open>sample_loads ''{"author": "Eve"}'' = Inr (JObj [(''author'', JStr ''Eve'')])\<close>
    by (simp add: sample_loads_def)
  have \<open>try_body exact_ops sample_loads sample_polarity ''{"author": "Eve"}'' init_state =
     ([(DEBUG, RawMessage ''{"author": "Eve"}''),
       (INFO, ProcessedJSON (JObj [(''author'', JStr ''Eve'')])),
       (INFO, ReceivedFrom (dict_get [(''author'', JStr ''Eve'')] ''author'' (JStr ''unknown'')))],
      init_state\<lparr>author_counts :=
        incr_count (dict_get [(''author'', JStr ''Eve'')] ''author'' (JStr ''unknown''))
          (author_counts init_state)\<rparr>,
      Some KeyError)\<close>
    using l
    by (intro try_body_no_message [where json_loads = sample_loads])
       (simp_all add: dict_get_def)
  then show ?thesis
    using l by (simp add: process_message_state dict_get_def init_state_def)
qed

text \<open>
  Claim C1, amended. For a record that decodes to an object without the \<^verbatim>\<open>message\<close> field
  the call ends in the generic handler, which logs the error: the sentiment status, the last
  alert range and the message counter keep their values and no alert is emitted, but the
  count of the record's author (\<^verbatim>\<open>"unknown"\<close> when absent) has been incremented, unless the
  author value is unhashable, in which case nothing changes.
\<close>

theorem missing_message_only_counts_author:
  assumes "json_loads message = Inr (JObj d)" and "map_of d ''message'' = None"
  shows "process_message ops json_loads polarity message st =
      ([(DEBUG, RawMessage message), (INFO, ProcessedJSON (JObj d)),
        (INFO, ReceivedFrom (dict_get d ''author'' (JStr ''unknown''))),
        (ERROR, ErrorProcessing
           (if hashable (dict_get d ''author'' (JStr ''unknown'')) then KeyError else TypeError))],
       if hashable (dict_get d ''author'' (JStr ''unknown''))
       then st\<lparr>author_counts :=
              incr_count (dict_get d ''author'' (JStr ''unknown'')) (author_counts st)\<rparr>
       else st)
    \<and> sentiment_status (snd (process_message ops json_loads polarity message st)) = sentiment_status st
    \<and> last_alert_range (snd (process_message ops json_loads polarity message st)) = last_alert_range st
    \<and> message_counter (snd (process_message ops json_loads polarity message st)) = message_counter st
    \<and> alerts (fst (process_message ops json_loads polarity message st)) = []"
proof (cases "hashable (dict_get d ''author'' (JStr ''unknown''))")
  case True
  then show ?thesis
    using assms by (simp add: process_message_def try_body_no_message)
next
  case False
  then show ?thesis
    using assms by (simp add: process_message_def try_body_unhashable)
qed

text \<open>A record with an author and no message.\<close>

theorem missing_message_only_counts_author_witness:
  \<open>sample_loads ''{"author": "Eve"}'' = Inr (JObj [(''author'', JStr ''Eve'')])
   \<and> map_of [(''author'', JStr ''Eve'')] ''message'' = None
   \<and> process_message exact_ops sample_loads sample_polarity ''{"author": "Eve"}'' init_state =
       ([(DEBUG, RawMessage ''{"author": "Eve"}''),
         (INFO, ProcessedJSON (JObj [(''author'', JStr ''Eve'')])),
         (INFO, ReceivedFrom (JStr ''Eve'')),
         (ERROR, ErrorProcessing KeyError)],
        init_state\<lparr>author_counts := [(JStr ''Eve'', 1)]\<rparr>)\<close>
proof -
  have l: \<open>sample_loads ''{"author": "Eve"}'' = Inr (JObj [(''author'', JStr ''Eve'')])\<close>
    by (simp add: sample_loads_def)
  have m: "map_of [(''author'', JStr ''Eve'')] ''message'' = None"
    by simp
  show ?thesis
    using missing_message_only_counts_author
            [where json_loads = sample_loads and polarity = sample_polarity
               and st = init_state and ops = exact_ops, OF l m] l
    by (simp add: dict_get_def init_state_def)
qed

text \<open>
  Claim C10. Whenever the body of \<^verbatim>\<open>process_message\<close> ends in an exception, in particular
  after the author was counted (the \<^verbatim>\<open>message\<close> field is absent, or the scorer raises), the
  sentiment status, the last alert range and the message counter keep the values they had
  and no alert is emitted; at most the author's count has changed.
\<close>

theorem failure_keeps_sentiment_state:
  assumes "snd (snd (try_body ops json_loads polarity message st)) = Some e"
  shows "sentiment_status (snd (process_message ops json_loads polarity message st)) = sentiment_status st
    \<and> last_alert_range (snd (process_message ops json_loads polarity message st)) = last_alert_range st
    \<and> message_counter (snd (process_message ops json_loads polarity message st)) = message_counter st
    \<and> alerts (fst (process_message ops json_loads polarity message st)) = []
    \<and> author_counts (snd (process_message ops json_loads polarity message st)) =
        (case counted json_loads message of
           Some a \<Rightarrow> incr_count a (author_counts st)
         | None \<Rightarrow> author_counts st)"
  using process_message_unscored [OF try_body_raises_unscored [OF assms], where st = st and ops = ops]
  by (simp split: option.splits)

text \<open>A record whose message is a number, which the scorer refuses.\<close>

theorem failure_keeps_sentiment_state_witness:
  \<open>snd (snd (try_body exact_ops sample_loads sample_polarity ''{"message": 5}'' init_state)) = Some TypeError
   \<and> sentiment_status (snd (process_message exact_ops sample_loads sample_polarity ''{"message": 5}'' init_state)) = 0
   \<and> last_alert_range (snd (process_message exact_ops sample_loads sample_polarity ''{"message": 5}'' init_state)) = None
   \<and> message_counter (snd (process_message exact_ops sample_loads sample_polarity ''{"message": 5}'' init_state)) = 0
   \<and> alerts (fst (process_message exact_ops sample_loads sample_polarity ''{"message": 5}'' init_state)) = []
   \<and> author_counts (snd (process_message exact_ops sample_loads sample_polarity ''{"message": 5}'' init_state))
       = [(JStr ''unknown'', 1)]\<close>
proof -
  have l: \<open>sample_loads ''{"message": 5}'' = Inr (JObj [(''message'', JInt 5)])\<close>
    by (simp add: sample_loads_def)
  have t: \<open>snd (snd (try_body exact_ops sample_loads sample_polarity ''{"message": 5}'' init_state)) = Some TypeError\<close>
    by (subst try_body_scorer_error
          [where json_loads = sample_loads and h = "JInt 5" and e = TypeError, OF l])
       (simp_all add: dict_get_def sample_polarity_def)
  have c: \<open>counted sample_loads ''{"message": 5}'' = Some (JStr ''unknown'')\<close>
    by (simp add: counted_def l dict_get_def)
  show ?thesis
    using failure_keeps_sentiment_state [OF t] t
    by (simp add: c init_state_def)
qed

section \<open>Runs of records\<close>

lemma consume_snd_Cons:
  "snd (consume ops L P (m # ms) st) =
     snd (consume ops L P ms (snd (process_message ops L P m st)))"
  by (simp add: Let_def split: prod.splits)

lemma consume_fst_Cons:
  "fst (consume ops L P (m # ms) st) =
     fst (process_message ops L P m st)
       @ fst (consume ops L P ms (snd (process_message ops L P m st)))"
  by (simp add: Let_def split: prod.splits)

lemma process_message_status:
  "sentiment_status (snd (process_message ops L P m st)) =
     (case scored L P m of
        Some (a, x) \<Rightarrow>
          fround2 ops (fadd ops (sentiment_status st) (apply_author_weight ops a x))
      | None \<Rightarrow> sentiment_status st)"
proof (cases "scored L P m")
  case None
  then show ?thesis
    using process_message_unscored [OF None, where st = st and ops = ops]
    by (simp split: option.splits)
next
  case (Some p)
  obtain a x where p: "p = (a, x)" by (cases p)
  show ?thesis
    using process_message_scored [of L P m a x ops st] Some p by simp
qed

lemma process_message_counts:
  "author_counts (snd (process_message ops L P m st)) =
     (case counted L m of
        Some a \<Rightarrow> incr_count a (author_counts st)
      | None \<Rightarrow> author_counts st)"
proof (cases "scored L P m")
  case None
  then show ?thesis
    using process_message_unscored [OF None, where st = st and ops = ops]
    by (simp split: option.splits)
next
  case (Some p)
  obtain a x where p: "p = (a, x)" by (cases p)
  have "counted L m = Some a"
    using Some p
    by (auto simp: scored_def counted_def Let_def
        split: sum.splits json.splits option.splits if_splits)
  then show ?thesis
    using process_message_scored [of L P m a x ops st] Some p by simp
qed

lemma total_incr_count: "total_author_count (incr_count a ac) = total_author_count ac + 1"
  by (induction ac) (auto simp: total_author_count_def)

lemma key_eq_sym: "key_eq a b \<Longrightarrow> key_eq b a"
  by (auto simp: key_eq_def split: option.splits)

lemma key_eq_trans: "key_eq a b \<Longrightarrow> key_eq b c \<Longrightarrow> key_eq a c"
  by (auto simp: key_eq_def split: option.splits)

lemma count_of_incr_count:
  "count_of b (incr_count a ac) = (if key_eq a b then count_of b ac + 1 else count_of b ac)"
proof (induction ac)
  case Nil
  show ?case by simp
next
  case (Cons kc ac)
  obtain k c where kc: "kc = (k, c)" by (cases kc)
  show ?case
  proof (cases "key_eq k a")
    case True
    then have "key_eq k b \<longleftrightarrow> key_eq a b"
      using key_eq_trans key_eq_sym by blast
    then show ?thesis using True kc by simp
  next
    case False
    then have "key_eq k b \<Longrightarrow> \<not> key_eq a b"
      using key_eq_trans key_eq_sym by blast
    then show ?thesis using False kc Cons.IH by auto
  qed
qed


text \<open>
  Rounding at every step is not rounding once at the end: two scores of \<open>1 / 256\<close> from
  an unknown author leave the status at 0, each sum being rounded to 0, while their sum
  \<open>1 / 128\<close> does not round to 0.
\<close>

lemma stepwise_rounding_example:
  "foldl (\<lambda>c (a, x). fround2 exact_ops (fadd exact_ops c (apply_author_weight exact_ops a x)))
     0 [(JStr ''unknown'', 1 / 256), (JStr ''unknown'', 1 / 256)] = 0"
  "fround2 exact_ops (fadd exact_ops (1 / 256) (1 / 256)) \<noteq> 0"
  by (simp_all add: exact_ops_def round_half_even_def apply_author_weight_def
      author_weights_def)

section \<open>Author counts\<close>

text \<open>
  Claim C6, as stated, fails: a record that decodes to an object without \<^verbatim>\<open>message\<close> is
  not a successfully decoded message, and its author is counted all the same.
\<close>

theorem author_counts_total_counterexample:
  \<open>total_author_count
     (author_counts
        (snd (consume exact_ops sample_loads sample_polarity [''{"author": "Eve"}''] init_state)))
     = 1
   \<and> int (length (filter (decoded sample_loads) [''{"author": "Eve"}''])) = 0\<close>
proof -
  have l: \<open>sample_loads ''{"author": "Eve"}'' = Inr (JObj [(''author'', JStr ''Eve'')])\<close>
    by (simp add: sample_loads_def)
  have c: \<open>counted sample_loads ''{"author": "Eve"}'' = Some (JStr ''Eve'')\<close>
    by (simp add: counted_def l dict_get_def)
  have d: \<open>\<not> decoded sample_loads ''{"author": "Eve"}''\<close>
    by (simp add: decoded_def l)
  show ?thesis
    unfolding consume_snd_Cons
    by (simp add: process_message_counts c d init_state_def total_author_count_def)
qed

text \<open>
  Claim C6, amended. After any finite run of records the sum of the author counts has
  grown by the number of records that decode to an object whose author value is hashable,
  whether or not they have a \<^verbatim>\<open>message\<close> and whether or not scoring succeeds; each such
  record adds exactly one to the count of its author and leaves every other count, and
  every other record leaves all counts, as they were.
\<close>

theorem author_counts_total:
  "total_author_count (author_counts (snd (consume ops json_loads polarity ms st))) =
     total_author_count (author_counts st)
       + int (length (List.map_filter (counted json_loads) ms))
   \<and> count_of b (author_counts (snd (process_message ops json_loads polarity m st))) =
       (case counted json_loads m of
          Some a \<Rightarrow> if key_eq a b then count_of b (author_counts st) + 1
                    else count_of b (author_counts st)
        | None \<Rightarrow> count_of b (author_counts st))"
proof (intro conjI)
  show "total_author_count (author_counts (snd (consume ops json_loads polarity ms st))) =
     total_author_count (author_counts st)
       + int (length (List.map_filter (counted json_loads) ms))"
  proof (induction ms arbitrary: st)
    case Nil
    show ?case by (simp add: List.map_filter_simps)
  next
    case (Cons m ms)
    show ?case
      unfolding consume_snd_Cons Cons.IH
      by (cases "counted json_loads m")
         (simp_all add: List.map_filter_simps process_message_counts total_incr_count)
  qed
next
  show "count_of b (author_counts (snd (process_message ops json_loads polarity m st))) =
       (case counted json_loads m of
          Some a \<Rightarrow> if key_eq a b then count_of b (author_counts st) + 1
                    else count_of b (author_counts st)
        | None \<Rightarrow> count_of b (author_counts st))"
    by (simp add: process_message_counts count_of_incr_count split: option.splits)
qed

section \<open>The last alert range is sticky\<close>

lemma neutral_step:
  assumes "current_range_of (sentiment_status (snd (process_message ops L P m st))) = None"
  shows "alerts (fst (process_message ops L P m st)) = []
    \<and> last_alert_range (snd (process_message ops L P m st)) = last_alert_range st"
proof (cases "scored L P m")
  case None
  then show ?thesis
    using process_message_unscored [OF None, where st = st and ops = ops]
    by (simp split: option.splits)
next
  case (Some p)
  obtain a x where p: "p = (a, x)" by (cases p)
  have "current_range_of
          (fround2 ops (fadd ops (sentiment_status st) (apply_author_weight ops a x))) = None"
    using assms Some p by (simp add: process_message_status)
  then show ?thesis
    using process_message_scored [of L P m a x ops st] Some p by simp
qed

lemma neutral_run:
  "list_all (\<lambda>s. current_range_of (sentiment_status s) = None) (trace ops L P ms st) \<Longrightarrow>
   alerts (fst (consume ops L P ms st)) = []
   \<and> last_alert_range (snd (consume ops L P ms st)) = last_alert_range st"
proof (induction ms arbitrary: st)
  case Nil
  show ?case by simp
next
  case (Cons m ms)
  from Cons.prems
  have h: "current_range_of (sentiment_status (snd (process_message ops L P m st))) = None"
    and t: "list_all (\<lambda>s. current_range_of (sentiment_status s) = None)
              (trace ops L P ms (snd (process_message ops L P m st)))"
    by (simp_all add: Let_def)
  show ?case
    unfolding consume_snd_Cons consume_fst_Cons
    using neutral_step [OF h] Cons.IH [OF t]
    by (simp add: alerts_append)
qed

text \<open>
  Claim C5. Let the last alert have fired for range \<open>B\<close>, and let a run of records keep the
  status in the dead zone (no range is selected after any of them). Then the run emits no
  alert and leaves the last alert range at \<open>B\<close>; and when the next scored record takes the
  status into range \<open>B'\<close>, no alert is emitted if \<open>B' = B\<close>, while the alert of \<open>B'\<close> is
  emitted and \<open>B'\<close> becomes the last alert range if \<open>B' \<noteq> B\<close>, whatever alerts the history
  before holds.
\<close>

theorem sticky_last_band:
  assumes "last_alert_range st = Some B"
    and "list_all (\<lambda>s. current_range_of (sentiment_status s) = None)
           (trace ops json_loads polarity ms st)"
    and "scored json_loads polarity m = Some (a, x)"
    and "current_range_of
           (sentiment_status
              (snd (process_message ops json_loads polarity m
                      (snd (consume ops json_loads polarity ms st))))) = Some B'"
  shows "alerts (fst (consume ops json_loads polarity ms st)) = []
    \<and> last_alert_range (snd (consume ops json_loads polarity ms st)) = Some B
    \<and> map Some (alerts (fst (process_message ops json_loads polarity m
                               (snd (consume ops json_loads polarity ms st))))) =
        (if B' = B then [] else [map_of alert_messages B'])
    \<and> last_alert_range (snd (process_message ops json_loads polarity m
                               (snd (consume ops json_loads polarity ms st)))) = Some B'"
proof -
  let ?st = "snd (consume ops json_loads polarity ms st)"
  let ?c = "fround2 ops (fadd ops (sentiment_status ?st) (apply_author_weight ops a x))"
  have n: "alerts (fst (consume ops json_loads polarity ms st)) = []"
    and l: "last_alert_range ?st = Some B"
    using neutral_run [OF assms(2)] assms(1) by simp_all
  have c: "current_range_of ?c = Some B'"
    using assms(3,4) by (simp add: process_message_status)
  obtain t where t: "map_of alert_messages B' = Some t"
    using alert_messages_total [OF c] by blast
  show ?thesis
    using process_message_scored [OF assms(3), where st = ?st and ops = ops] c n l t
    by auto
qed

lemma exact_ops_simps:
  "fmul exact_ops x y = x * y"
  "fadd exact_ops x y = x + y"
  "fround2 exact_ops x = of_int (round_half_even (x * 100)) / 100"
  by (simp_all add: exact_ops_def)

lemma sample_scored:
  \<open>scored sample_loads sample_polarity ''{"message": "awesome"}'' = Some (JStr ''unknown'', 1)\<close>
  \<open>scored sample_loads sample_polarity ''{"message": "worst"}'' = Some (JStr ''unknown'', -1)\<close>
  by (simp_all add: scored_def sample_loads_def sample_polarity_def dict_get_def)

lemma unknown_author_step:
  assumes "scored L P m = Some (JStr ''unknown'', x)"
  shows "snd (process_message exact_ops L P m
           \<lparr>author_counts = [(JStr ''unknown'', n)], sentiment_status = s,
            last_alert_range = l, message_counter = k\<rparr>) =
         \<lparr>author_counts = [(JStr ''unknown'', n + 1)],
          sentiment_status = of_int (round_half_even ((s + x) * 100)) / 100,
          last_alert_range =
            (case current_range_of (of_int (round_half_even ((s + x) * 100)) / 100) of
               None \<Rightarrow> l | Some r \<Rightarrow> Some r),
          message_counter = k + 1\<rparr>"
  using process_message_scored
          [OF assms, where ops = exact_ops
             and st = "\<lparr>author_counts = [(JStr ''unknown'', n)], sentiment_status = s,
                       last_alert_range = l, message_counter = k\<rparr>"]
  by (simp add: apply_author_weight_def author_weights_def key_eq_def exact_ops_simps
      split: option.splits)

lemma round_half_even_samples:
  "round_half_even (-100) = -100" "round_half_even 0 = 0" "round_half_even 100 = 100"
  by (simp_all add: round_half_even_def)

text \<open>
  A stream that has alerted for range 1 and then for range -1 stands at status -1. One
  record scored 1.0 takes the status to 0, in the dead zone. From there a record scored
  -1.0 re-enters range -1 without an alert, while a record scored 1.0 enters range 1 and
  fires its alert again.
\<close>

theorem sticky_last_band_witness:
  \<open>last_alert_range
      \<lparr>author_counts = [(JStr ''unknown'', 3)], sentiment_status = -1,
       last_alert_range = Some (-1), message_counter = 3\<rparr> = Some (-1)
   \<and> list_all (\<lambda>s. current_range_of (sentiment_status s) = None)
        (trace exact_ops sample_loads sample_polarity [''{"message": "awesome"}'']
           \<lparr>author_counts = [(JStr ''unknown'', 3)], sentiment_status = -1,
            last_alert_range = Some (-1), message_counter = 3\<rparr>)
   \<and> alerts (fst (consume exact_ops sample_loads sample_polarity [''{"message": "awesome"}'']
           \<lparr>author_counts = [(JStr ''unknown'', 3)], sentiment_status = -1,
            last_alert_range = Some (-1), message_counter = 3\<rparr>)) = []
   \<and> alerts (fst (process_message exact_ops sample_loads sample_polarity ''{"message": "worst"}''
         (snd (consume exact_ops sample_loads sample_polarity [''{"message": "awesome"}'']
           \<lparr>author_counts = [(JStr ''unknown'', 3)], sentiment_status = -1,
            last_alert_range = Some (-1), message_counter = 3\<rparr>)))) = []
   \<and> map Some (alerts (fst (process_message exact_ops sample_loads sample_polarity
         ''{"message": "awesome"}''
         (snd (consume exact_ops sample_loads sample_polarity [''{"message": "awesome"}'']
           \<lparr>author_counts = [(JStr ''unknown'', 3)], sentiment_status = -1,
            last_alert_range = Some (-1), message_counter = 3\<rparr>))))) = [map_of alert_messages 1]\<close>
proof -
  let ?st = "\<lparr>author_counts = [(JStr ''unknown'', 3)], sentiment_status = -1,
       last_alert_range = Some (-1), message_counter = 3\<rparr>"
  have mid: \<open>snd (consume exact_ops sample_loads sample_polarity [''{"message": "awesome"}''] ?st) =
       \<lparr>author_counts = [(JStr ''unknown'', 4)], sentiment_status = 0,
        last_alert_range = Some (-1), message_counter = 4\<rparr>\<close>
    unfolding consume_snd_Cons
    by (simp add: unknown_author_step [OF sample_scored(1)] round_half_even_samples
        current_range_of_eq)
  have l: "last_alert_range ?st = Some (-1)" by simp
  have d: \<open>list_all (\<lambda>s. current_range_of (sentiment_status s) = None)
        (trace exact_ops sample_loads sample_polarity [''{"message": "awesome"}''] ?st)\<close>
    by (simp add: unknown_author_step [OF sample_scored(1)] round_half_even_samples
        current_range_of_eq)
  have same: \<open>current_range_of
       (sentiment_status
          (snd (process_message exact_ops sample_loads sample_polarity ''{"message": "worst"}''
             (snd (consume exact_ops sample_loads sample_polarity
                     [''{"message": "awesome"}''] ?st))))) = Some (-1)\<close>
    unfolding mid
    by (simp add: unknown_author_step [OF sample_scored(2)] round_half_even_samples
        current_range_of_eq)
  have other: \<open>current_range_of
       (sentiment_status
          (snd (process_message exact_ops sample_loads sample_polarity ''{"message": "awesome"}''
             (snd (consume exact_ops sample_loads sample_polarity
                     [''{"message": "awesome"}''] ?st))))) = Some 1\<close>
    unfolding mid
    by (simp add: unknown_author_step [OF sample_scored(1)] round_half_even_samples
        current_range_of_eq)
  show ?thesis
    using sticky_last_band [OF l d sample_scored(2) same]
          sticky_last_band [OF l d sample_scored(1) other] d
    by simp
qed

end
